theory Spec2Isabelle
  imports Main "HOL-Library.Word"
begin

section \<open>Data model of the tunnel package (tunnel.go)\<close>

text \<open>
  Go pointers are addresses into an explicit store; \<open>None\<close> is the nil pointer.
  Every non-nil address holds an object (Go has no dangling pointers), so the store is
  a total function.
\<close>

type_synonym addr = nat
type_synonym session_ptr = "addr option"
type_synonym connector_ptr = "addr option"

text \<open>
  The package's error values (handler.go, lines 29-36). \<open>ErrExternal\<close> stands for an
  error produced by a collaborator outside the package (a failed read, a failed stream
  open, a failed session close).
\<close>

datatype error =
    ErrBadVersion
  | ErrUnknownCmd
  | ErrTunnelID
  | ErrTunnelNotAvailable
  | ErrUnauthorized
  | ErrRateLimit
  | ErrExternal string

text \<open>
  Modelled from the spec: \<open>relay.ConnectorID\<close> is declared in the external relay
  package. The tunnel package only observes it through \<open>Weight()\<close> (a uint8) and
  \<open>IsUDP()\<close>, so the identifier is carried as the values of these two observers.
\<close>

record ConnectorID =
  Weight :: "8 word"
  IsUDP :: bool

text \<open>
  Modelled from the spec: \<open>relay.TunnelID\<close> is declared in the external relay package:
  a 16-byte identifier with a one-bit private flag carried beside the 16 bytes; the zero
  value means "unset", and identity is decided by the 16 bytes alone.
\<close>

record TunnelID =
  tid_bytes :: "8 word list"
  tid_private :: bool

definition zero_bytes :: "8 word list" where
  "zero_bytes = replicate 16 0"

definition zeroTunnelID :: TunnelID where
  "zeroTunnelID = \<lparr>tid_bytes = zero_bytes, tid_private = False\<rparr>"

definition copy16 :: "8 word list \<Rightarrow> 8 word list" where
  "copy16 v = take 16 v @ replicate (16 - length v) 0"

definition NewTunnelID :: "8 word list \<Rightarrow> TunnelID" where
  "NewTunnelID v = \<lparr>tid_bytes = copy16 v, tid_private = False\<rparr>"

definition NewPrivateTunnelID :: "8 word list \<Rightarrow> TunnelID" where
  "NewPrivateTunnelID v = \<lparr>tid_bytes = copy16 v, tid_private = True\<rparr>"

definition IsZero :: "TunnelID \<Rightarrow> bool" where
  "IsZero t = (tid_bytes t = zero_bytes)"

definition MaxWeight :: "8 word" where
  "MaxWeight = 0xff"

text \<open>
  \<open>ConnectorOptions\<close> and \<open>Connector\<close> (tunnel.go, lines 27-41). Field names carry a
  prefix because the source's one-letter names (\<open>s\<close>, \<open>t\<close>) and \<open>id\<close> would capture
  variables and the identity function. The creation time and the service-discovery
  handle play no part in the functions below and are left out. The statistics and
  limiter handles are pointers.
\<close>

record ConnectorOptions =
  opt_service :: string
  opt_stats :: "addr option"
  opt_limiter :: "addr option"

record Connector =
  c_id :: ConnectorID
  c_tid :: TunnelID
  c_node :: string
  c_s :: session_ptr
  c_opts :: ConnectorOptions

text \<open>
  A stream handed out by a mux session, and the decorated connection \<open>GetConn\<close> builds
  from it. The wrappers are kept as constructors with their arguments, uninterpreted.
  The limiter key and client are \<open>c.tid.String()\<close>; the identifier itself is stored.
\<close>

record mux_stream =
  stream_no :: nat
  stream_remote :: string

record limiter_options =
  lim_scope :: string
  lim_service :: string
  lim_client :: TunnelID
  lim_network :: string
  lim_src :: string

datatype net_conn =
    Stream mux_stream
  | StatsConn net_conn "addr option"
  | TrafficConn net_conn "addr option" TunnelID limiter_options

text \<open>
  Modelled from the spec: \<open>mux.Session\<close> (internal/util/mux) is not among the sources.
  Section 4.1 gives its contract: \<open>Close()\<close>, \<open>IsClosed()\<close>, opening a stream; a session
  is closed after a local \<open>Close\<close>. The store keeps, for every session address, its closed
  flag, what its \<open>GetConn\<close> and \<open>Close\<close> return, and the log of \<open>Close\<close> calls made so far.
\<close>

record world =
  connector_of :: "addr \<Rightarrow> Connector"
  session_closed :: "addr \<Rightarrow> bool"
  session_getconn :: "addr \<Rightarrow> error + mux_stream"
  session_close_err :: "addr \<Rightarrow> error option"
  close_calls :: "addr list"

definition Session_IsClosed :: "world \<Rightarrow> addr \<Rightarrow> bool" where
  "Session_IsClosed w a = session_closed w a"

definition Session_Close :: "world \<Rightarrow> addr \<Rightarrow> error option \<times> world" where
  "Session_Close w a =
     (session_close_err w a,
      w\<lparr>session_closed := (session_closed w)(a := True),
        close_calls := close_calls w @ [a]\<rparr>)"

section \<open>Connector (tunnel.go, lines 83-126)\<close>

text \<open>
  \<open>GetConn\<close> returns Go's pair \<open>(net.Conn, error)\<close>: each component is \<open>None\<close> for nil.
\<close>

definition GetConn :: "world \<Rightarrow> connector_ptr \<Rightarrow> net_conn option \<times> error option" where
  "GetConn w c =
     (case c of
        None \<Rightarrow> (None, None)
      | Some a \<Rightarrow>
          (case c_s (connector_of w a) of
             None \<Rightarrow> (None, None)
           | Some sa \<Rightarrow>
               (case session_getconn w sa of
                  Inl err \<Rightarrow> (None, Some err)
                | Inr st \<Rightarrow>
                    (let k = connector_of w a;
                         conn = StatsConn (Stream st) (opt_stats (c_opts k));
                         network = (if IsUDP (c_id k) then ''udp'' else ''tcp'')
                     in (Some (TrafficConn conn (opt_limiter (c_opts k)) (c_tid k)
                           \<lparr>lim_scope = ''client'',
                            lim_service = opt_service (c_opts k),
                            lim_client = c_tid k,
                            lim_network = network,
                            lim_src = stream_remote st\<rparr>), None)))))"

definition Connector_Close :: "world \<Rightarrow> connector_ptr \<Rightarrow> error option \<times> world" where
  "Connector_Close w c =
     (case c of
        None \<Rightarrow> (None, w)
      | Some a \<Rightarrow>
          (case c_s (connector_of w a) of
             None \<Rightarrow> (None, w)
           | Some sa \<Rightarrow> Session_Close w sa))"

definition Connector_IsClosed :: "world \<Rightarrow> connector_ptr \<Rightarrow> bool" where
  "Connector_IsClosed w c =
     (case c of
        None \<Rightarrow> True
      | Some a \<Rightarrow>
          (case c_s (connector_of w a) of
             None \<Rightarrow> True
           | Some sa \<Rightarrow> Session_IsClosed w sa))"

definition Connector_ID :: "world \<Rightarrow> addr \<Rightarrow> ConnectorID" where
  "Connector_ID w a = c_id (connector_of w a)"

section \<open>Weighted random selector\<close>

text \<open>
  Modelled from the spec: \<open>selector.RandomWeighted\<close> (package selector) is not among the
  sources. Section 9 describes it as \<open>add(item, weight)\<close>, \<open>reset()\<close>,
  \<open>next() \<rightarrow> item-or-nil\<close>, sampling in proportion to the accumulated weights, and
  section 4.3 says that an empty set gives nil. The selection set is the list of added
  items with their weights; the draw of the random source is the argument \<open>r\<close> of
  \<open>rw_Next\<close>, and the item whose weight interval contains \<open>r mod total\<close> is returned.
\<close>

type_synonym 'a RandomWeighted = "('a \<times> int) list"

definition NewRandomWeighted :: "'a RandomWeighted" where
  "NewRandomWeighted = []"

definition rw_Add :: "'a RandomWeighted \<Rightarrow> 'a \<Rightarrow> int \<Rightarrow> 'a RandomWeighted" where
  "rw_Add rw x wt = rw @ [(x, wt)]"

definition rw_Reset :: "'a RandomWeighted \<Rightarrow> 'a RandomWeighted" where
  "rw_Reset rw = []"

fun rw_pick :: "('a \<times> int) list \<Rightarrow> int \<Rightarrow> 'a option" where
  "rw_pick [] k = None"
| "rw_pick ((x, wt) # xs) k = (if k < wt then Some x else rw_pick xs (k - wt))"

definition rw_Next :: "'a RandomWeighted \<Rightarrow> nat \<Rightarrow> 'a option" where
  "rw_Next rw r =
     (let total = sum_list (map snd rw)
      in if rw = [] \<or> total \<le> 0 then None else rw_pick rw (int r mod total))"

section \<open>Tunnel (tunnel.go, lines 128-284)\<close>

text \<open>
  The \<open>close\<close> channel carries no values: it is only ever closed. It is modelled by its
  closed flag; a receive succeeds exactly when the channel is closed, and closing a
  closed channel is Go's run-time panic. Durations are nanosecond counts.
\<close>

datatype go_panic = CloseOfClosedChannel | NilPointerDereference

text \<open>The service-discovery handle \<open>sd\<close> is a pointer, nil until \<open>WithSD\<close> sets it.\<close>

record Tunnel =
  t_node :: string
  t_id :: TunnelID
  t_connectors :: "connector_ptr list"
  t_close :: bool
  t_sd :: "addr option"
  t_ttl :: int

definition close_chan :: "bool \<Rightarrow> go_panic + bool" where
  "close_chan closed = (if closed then Inl CloseOfClosedChannel else Inr True)"

text \<open>\<open>defaultTTL\<close> is declared outside the sources and is a parameter.\<close>

definition NewTunnel :: "int \<Rightarrow> string \<Rightarrow> TunnelID \<Rightarrow> int \<Rightarrow> Tunnel" where
  "NewTunnel defaultTTL node tid ttl =
     \<lparr>t_node = node, t_id = tid, t_connectors = [], t_close = False, t_sd = None,
      t_ttl = (if ttl \<le> 0 then defaultTTL else ttl)\<rparr>"

definition WithSD :: "Tunnel \<Rightarrow> addr option \<Rightarrow> Tunnel" where
  "WithSD t sd = t\<lparr>t_sd := sd\<rparr>"


text \<open>
  The body of the \<open>for\<close> loop of \<open>GetConnector\<close> (lines 184-205), on the selector and
  the \<open>found\<close> flag. \<open>c.ID()\<close> is only reached for a connector that is not closed, hence
  not nil; the nil branch of the dereference is unreachable and continues.
\<close>

fun GetConnector_loop ::
  "world \<Rightarrow> string \<Rightarrow> connector_ptr list \<Rightarrow>
   connector_ptr RandomWeighted \<times> bool \<Rightarrow> connector_ptr RandomWeighted \<times> bool" where
  "GetConnector_loop w network [] st = st"
| "GetConnector_loop w network (c # cs) (rw, found) =
     (if Connector_IsClosed w c then GetConnector_loop w network cs (rw, found)
      else
        (case c of
           None \<Rightarrow> GetConnector_loop w network cs (rw, found)
         | Some a \<Rightarrow>
             (let weight0 = Weight (Connector_ID w a);
                  weight = (if weight0 = 0 then 1 else weight0);
                  udp = IsUDP (c_id (connector_of w a))
              in if network = ''udp'' \<and> udp \<or> network \<noteq> ''udp'' \<and> \<not> udp then
                   (let (rw1, found1) =
                          (if weight = MaxWeight \<and> \<not> found then (rw_Reset rw, True)
                           else (rw, found));
                        rw2 = (if weight = MaxWeight \<or> \<not> found1
                               then rw_Add rw1 c (uint weight) else rw1)
                    in GetConnector_loop w network cs (rw2, found1))
                 else GetConnector_loop w network cs (rw, found))))"

text \<open>
  \<open>GetConnector\<close>: \<open>r\<close> is the draw of the selector's random source. \<open>rw.Next()\<close> returns
  the zero value of the item type, the nil pointer, when it has nothing to return.
\<close>

definition GetConnector :: "world \<Rightarrow> Tunnel \<Rightarrow> string \<Rightarrow> nat \<Rightarrow> connector_ptr" where
  "GetConnector w t network r =
     (if length (t_connectors t) = 1 then t_connectors t ! 0
      else
        (case rw_Next (fst (GetConnector_loop w network (t_connectors t)
                              (NewRandomWeighted, False))) r of
           None \<Rightarrow> None
         | Some c \<Rightarrow> c))"



definition CloseOnIdle :: "Tunnel \<Rightarrow> go_panic + (bool \<times> Tunnel)" where
  "CloseOnIdle t =
     (if t_close t then Inr (False, t)
      else if length (t_connectors t) = 0 then
        (case close_chan (t_close t) of
           Inl p \<Rightarrow> Inl p
         | Inr ch \<Rightarrow> Inr (True, t\<lparr>t_close := ch\<rparr>))
      else Inr (False, t))"







section \<open>ConnectorPool (tunnel.go, lines 286-333)\<close>

text \<open>
  The map holds tunnel pointers; \<open>Add\<close> only ever stores the result of \<open>NewTunnel\<close>, so a
  stored pointer is never nil and the map is a partial function to tunnels. \<open>Get\<close>
  returns the connector together with the pool as it leaves it.
\<close>

record ConnectorPool =
  p_node :: string
  p_tunnels :: "string \<rightharpoonup> Tunnel"

definition ConnectorPool_Get ::
  "world \<Rightarrow> ConnectorPool option \<Rightarrow> string \<Rightarrow> string \<Rightarrow> nat
   \<Rightarrow> connector_ptr \<times> ConnectorPool option" where
  "ConnectorPool_Get w p network tid r =
     (case p of
        None \<Rightarrow> (None, p)
      | Some pool \<Rightarrow>
          (case p_tunnels pool tid of
             None \<Rightarrow> (None, p)
           | Some t \<Rightarrow> (GetConnector w t network r, p)))"

section \<open>Relay handler (handler.go, lines 172-329)\<close>

text \<open>
  The request and response frames are declared in the external relay package. A feature
  is a value of the type its \<open>Type()\<close> announces. The address of an \<open>Addr\<close> feature is
  \<open>net.JoinHostPort(host, strconv.Itoa(port))\<close>, which is never the empty string; it is kept
  as the pair, and \<open>NoAddr\<close> is the empty string. The network of a \<open>Network\<close> feature
  is stored as the text its \<open>String()\<close> gives.
\<close>

datatype Status =
    StatusOK
  | StatusBadRequest
  | StatusUnauthorized
  | StatusForbidden
  | StatusServiceUnavailable
  | StatusNetworkUnreachable

record Response =
  resp_Version :: "8 word"
  resp_Status :: Status

datatype Feature =
    UserAuthFeature string string
  | AddrFeature string "16 word"
  | TunnelFeature TunnelID
  | NetworkFeature string

record Request =
  req_Version :: "8 word"
  req_Cmd :: "8 word"
  req_Features :: "Feature list"

datatype addr_text = NoAddr | HostPort string "16 word"

text \<open>The local variables the feature loop of \<open>Handle\<close> fills (lines 216-244).\<close>

record features =
  f_user :: string
  f_pass :: string
  f_srcAddr :: addr_text
  f_dstAddr :: addr_text
  f_network :: string
  f_tunnelID :: TunnelID

definition no_features :: features where
  "no_features =
     \<lparr>f_user = [], f_pass = [], f_srcAddr = NoAddr, f_dstAddr = NoAddr,
      f_network = ''tcp'', f_tunnelID = zeroTunnelID\<rparr>"

fun read_features :: "Feature list \<Rightarrow> features \<Rightarrow> features" where
  "read_features [] v = v"
| "read_features (UserAuthFeature u p # fs) v =
     read_features fs (v\<lparr>f_user := u, f_pass := p\<rparr>)"
| "read_features (AddrFeature host port # fs) v =
     read_features fs
       (if f_srcAddr v \<noteq> NoAddr then v\<lparr>f_dstAddr := HostPort host port\<rparr>
        else v\<lparr>f_srcAddr := HostPort host port\<rparr>)"
| "read_features (TunnelFeature tid # fs) v = read_features fs (v\<lparr>f_tunnelID := tid\<rparr>)"
| "read_features (NetworkFeature n # fs) v = read_features fs (v\<lparr>f_network := n\<rparr>)"

text \<open>The variables after the loop over the features of a request.\<close>

definition parsed :: "Request \<Rightarrow> features" where
  "parsed req = read_features (req_Features req) no_features"

text \<open>
  What \<open>Handle\<close> does to the connection, in order, and what it leaves behind: the pool,
  the store and the trace of the connection.
\<close>

datatype conn_event =
    SetReadDeadline bool
  | ReadRequest
  | WriteResponse Response
  | ConnClose

record hstate =
  hs_pool :: "ConnectorPool option"
  hs_world :: world
  hs_conn :: "conn_event list"

definition on_conn :: "hstate \<Rightarrow> conn_event \<Rightarrow> hstate" where
  "on_conn st e = st\<lparr>hs_conn := hs_conn st @ [e]\<rparr>"

text \<open>
  The handler: its authenticator (\<open>Authenticate(ctx, user, pass)\<close> returns the client
  identity and \<open>ok\<close>), its rate limiter (for a host: no limiter, or a limiter whose
  \<open>Allow(1)\<close> answers as given), the read timeout and the observer settings. The
  durations are nanosecond counts (Go's \<open>time.Duration\<close>).
\<close>

record tunnelHandler =
  h_Auther :: "(string \<Rightarrow> string \<Rightarrow> string \<times> bool) option"
  h_RateLimiter :: "(string \<Rightarrow> bool option) option"
  h_readTimeout :: int
  h_Observer :: "addr option"
  h_observePeriod :: int

text \<open>
  The accepted connection as \<open>Handle\<close> sees it: the host of its remote address and what
  \<open>req.ReadFrom(conn)\<close> yields.
\<close>

record conn_in =
  remote_host :: string
  read_result :: "error + Request"

text \<open>
  The relay package's constants and the two command handlers \<open>handleConnect\<close> and
  \<open>handleBind\<close> of the tunnel handler are declared outside the sources; they are
  parameters. A command handler receives the client identity attached to the context
  (if any), the arguments \<open>Handle\<close> passes and the state, and returns its error and the
  state it leaves.
\<close>

record relay_env =
  Version1 :: "8 word"
  CmdMask :: "8 word"
  CmdConnect :: "8 word"
  CmdBind :: "8 word"
  handleConnect ::
    "string option \<Rightarrow> Request \<Rightarrow> string \<Rightarrow> addr_text \<Rightarrow> addr_text \<Rightarrow> TunnelID \<Rightarrow>
     hstate \<Rightarrow> error option \<times> hstate"
  handleBind ::
    "string option \<Rightarrow> string \<Rightarrow> addr_text \<Rightarrow> TunnelID \<Rightarrow>
     hstate \<Rightarrow> error option \<times> hstate"

datatype dispatch = NoDispatch | DispatchConnect | DispatchBind

definition checkRateLimit :: "tunnelHandler \<Rightarrow> string \<Rightarrow> bool" where
  "checkRateLimit h host =
     (case h_RateLimiter h of
        None \<Rightarrow> True
      | Some rl \<Rightarrow> (case rl host of Some allow \<Rightarrow> allow | None \<Rightarrow> True))"

text \<open>
  The body of \<open>Handle\<close> from the rate limit to the command switch. The result is the
  error returned, the state, and which command handler was called.
\<close>

definition Handle_body ::
  "relay_env \<Rightarrow> tunnelHandler \<Rightarrow> conn_in \<Rightarrow> hstate \<Rightarrow> error option \<times> hstate \<times> dispatch" where
  "Handle_body E h conn st =
     (if \<not> checkRateLimit h (remote_host conn) then (Some ErrRateLimit, st, NoDispatch)
      else
        (let st1 = (if h_readTimeout h > 0 then on_conn st (SetReadDeadline True) else st);
             st2 = on_conn st1 ReadRequest
         in case read_result conn of
              Inl err \<Rightarrow> (Some err, st2, NoDispatch)
            | Inr req \<Rightarrow>
                (let st3 = on_conn st2 (SetReadDeadline False);
                     resp = \<lparr>resp_Version = Version1 E, resp_Status = StatusOK\<rparr>
                 in if req_Version req \<noteq> Version1 E then
                      (Some ErrBadVersion,
                       on_conn st3 (WriteResponse (resp\<lparr>resp_Status := StatusBadRequest\<rparr>)),
                       NoDispatch)
                    else
                      (let v = parsed req
                       in if IsZero (f_tunnelID v) then
                            (Some ErrTunnelID,
                             on_conn st3 (WriteResponse (resp\<lparr>resp_Status := StatusBadRequest\<rparr>)),
                             NoDispatch)
                          else
                            (case (case h_Auther h of
                                     None \<Rightarrow> Inr None
                                   | Some auth \<Rightarrow>
                                       (let (clientID, ok) = auth (f_user v) (f_pass v)
                                        in if \<not> ok then Inl ErrUnauthorized
                                           else Inr (Some clientID))) of
                               Inl err \<Rightarrow>
                                 (Some err,
                                  on_conn st3
                                    (WriteResponse (resp\<lparr>resp_Status := StatusUnauthorized\<rparr>)),
                                  NoDispatch)
                             | Inr ctx \<Rightarrow>
                                 (if and (req_Cmd req) (CmdMask E) = CmdConnect E then
                                    (let (err, st4) =
                                           handleConnect E ctx req (f_network v) (f_srcAddr v)
                                             (f_dstAddr v) (f_tunnelID v) st3
                                     in (err, on_conn st4 ConnClose, DispatchConnect))
                                  else if and (req_Cmd req) (CmdMask E) = CmdBind E then
                                    (let (err, st4) =
                                           handleBind E ctx (f_network v) (f_dstAddr v)
                                             (f_tunnelID v) st3
                                     in (err, st4, DispatchBind))
                                  else
                                    (Some ErrUnknownCmd,
                                     on_conn st3
                                       (WriteResponse (resp\<lparr>resp_Status := StatusBadRequest\<rparr>)),
                                     NoDispatch)))))))"

text \<open>
  \<open>Handle\<close>: the body, then the deferred function of lines 181-188, which closes the
  connection when the error is not nil.
\<close>

definition Handle ::
  "relay_env \<Rightarrow> tunnelHandler \<Rightarrow> conn_in \<Rightarrow> hstate \<Rightarrow> error option \<times> hstate \<times> dispatch" where
  "Handle E h conn st =
     (case Handle_body E h conn st of
        (err, st', d) \<Rightarrow> (err, (if err \<noteq> None then on_conn st' ConnClose else st'), d))"

section \<open>Stats observer (handler.go, lines 309-329, and the SOCKS4 handler)\<close>

text \<open>
  \<open>time.Millisecond\<close> and \<open>time.Second\<close> in nanoseconds. The \<open>for\<close>/\<open>select\<close> loop is run
  on the sequence of channel events it meets: a tick calls \<open>Observe\<close>, the context's
  \<open>Done\<close> ends it. \<open>observeStats\<close> gives the period handed to \<open>time.NewTicker\<close> and the
  number of \<open>Observe\<close> calls, or nothing when no observer is configured.
\<close>

definition Millisecond :: int where
  "Millisecond = 1000000"

definition Second :: int where
  "Second = 1000 * Millisecond"

datatype select_event = TickerC | CtxDone

fun observe_loop :: "select_event list \<Rightarrow> nat \<Rightarrow> nat" where
  "observe_loop [] n = n"
| "observe_loop (TickerC # es) n = observe_loop es (Suc n)"
| "observe_loop (CtxDone # es) n = n"

record observer_run =
  ticker_period :: int
  observations :: nat

definition observeStats :: "tunnelHandler \<Rightarrow> select_event list \<Rightarrow> observer_run option" where
  "observeStats h es =
     (if h_Observer h = None then None
      else
        (let d0 = h_observePeriod h;
             d = (if d0 < Millisecond then 5 * Second else d0)
         in Some \<lparr>ticker_period = d, observations = observe_loop es 0\<rparr>))"

record socks4Handler =
  s4_Observer :: "addr option"
  s4_observePeriod :: int

definition socks4_observeStats :: "socks4Handler \<Rightarrow> select_event list \<Rightarrow> observer_run option" where
  "socks4_observeStats h es =
     (if s4_Observer h = None then None
      else
        (let d0 = s4_observePeriod h;
             d = (if d0 < Millisecond then 5 * Second else d0)
         in Some \<lparr>ticker_period = d, observations = observe_loop es 0\<rparr>))"

section \<open>Listener connection queue (mtcp listener's mux, h2 listener's handleFunc)\<close>

text \<open>
  A Go channel of capacity \<open>ch_cap\<close>: its buffer, the number of goroutines blocked in a
  receive, and the values handed directly to such receivers. A receiver blocks only
  on an empty buffer. A \<open>select\<close> with a send case and a \<open>default\<close> case sends when a
  receiver is waiting or the buffer has room, and runs \<open>default\<close> otherwise: it never
  waits. \<open>send_or_default\<close> is \<open>None\<close> for the \<open>default\<close> case.
\<close>

record 'a chan =
  ch_buf :: "'a list"
  ch_cap :: nat
  ch_recvq :: nat
  ch_handed :: "'a list"

definition chan_ok :: "'a chan \<Rightarrow> bool" where
  "chan_ok q = (length (ch_buf q) \<le> ch_cap q \<and> (ch_recvq q = 0 \<or> ch_buf q = []))"

definition send_or_default :: "'a chan \<Rightarrow> 'a \<Rightarrow> 'a chan option" where
  "send_or_default q x =
     (if 0 < ch_recvq q then
        Some (q\<lparr>ch_recvq := ch_recvq q - 1, ch_handed := ch_handed q @ [x]\<rparr>)
      else if length (ch_buf q) < ch_cap q then Some (q\<lparr>ch_buf := ch_buf q @ [x]\<rparr>)
      else None)"

text \<open>
  The listener: its queue \<open>cqueue\<close> (made with capacity \<open>backlog\<close>), the connections it
  closed, the warnings it logged, and how often \<open>mux\<close>'s deferred closes of the session
  and of the connection ran. Connections and streams are numbered.
\<close>

record listener_state =
  cqueue :: "nat chan"
  closed_conns :: "nat list"
  warnings :: nat
  session_closes :: nat
  conn_closes :: nat

definition make_listener :: "nat \<Rightarrow> listener_state" where
  "make_listener backlog =
     \<lparr>cqueue = \<lparr>ch_buf = [], ch_cap = backlog, ch_recvq = 0, ch_handed = []\<rparr>,
      closed_conns = [], warnings = 0, session_closes = 0, conn_closes = 0\<rparr>"

text \<open>
  The \<open>for\<close> loop of \<open>mux\<close> on the results of its \<open>session.Accept()\<close> calls, in order. It
  returns on the first error; when the results run out it is waiting in \<open>Accept\<close>.
\<close>

datatype accepted = Accepted nat | AcceptError

datatype loop_status = Returned | InAccept

definition push :: "listener_state \<Rightarrow> nat \<Rightarrow> listener_state" where
  "push st c =
     (case send_or_default (cqueue st) c of
        Some q \<Rightarrow> st\<lparr>cqueue := q\<rparr>
      | None \<Rightarrow> st\<lparr>closed_conns := closed_conns st @ [c], warnings := Suc (warnings st)\<rparr>)"

fun mux_loop :: "accepted list \<Rightarrow> listener_state \<Rightarrow> listener_state \<times> loop_status" where
  "mux_loop [] st = (st, InAccept)"
| "mux_loop (AcceptError # rest) st = (st, Returned)"
| "mux_loop (Accepted c # rest) st = mux_loop rest (push st c)"

definition mux :: "bool \<Rightarrow> accepted list \<Rightarrow> listener_state \<Rightarrow> listener_state \<times> loop_status" where
  "mux session_ok results st =
     (if \<not> session_ok then (st\<lparr>conn_closes := Suc (conn_closes st)\<rparr>, Returned)
      else
        (case mux_loop results st of
           (st', Returned) \<Rightarrow>
             (st'\<lparr>session_closes := Suc (session_closes st'),
                  conn_closes := Suc (conn_closes st')\<rparr>, Returned)
         | (st', InAccept) \<Rightarrow> (st', InAccept)))"

text \<open>
  \<open>handleFunc\<close> of the h2 listener, on the result of \<open>upgrade\<close>: after the push it waits
  for the end of the connection's stream (\<open>conn.closed\<close>).
\<close>

datatype handle_status = UpgradeFailed | AwaitStreamEnd nat

definition handleFunc :: "error + nat \<Rightarrow> listener_state \<Rightarrow> listener_state \<times> handle_status" where
  "handleFunc upgraded st =
     (case upgraded of
        Inl err \<Rightarrow> (st, UpgradeFailed)
      | Inr c \<Rightarrow> (push st c, AwaitStreamEnd c))"

section \<open>parseTunnelID (tunnel.go, lines 367-382)\<close>

text \<open>
  \<open>uuid.Parse\<close> belongs to an external library and is a parameter: a function from the
  text to the 16-byte array and the error it returns together. \<open>parseTunnelID\<close> keeps
  the array and drops the error.
\<close>

type_synonym uuid_parser = "string \<Rightarrow> 8 word list \<times> error option"

text \<open>
  The text handed to \<open>uuid.Parse\<close>: the input without its leading \<open>$\<close>, if it has one.
\<close>

definition has_private_mark :: "string \<Rightarrow> bool" where
  "has_private_mark s = (s \<noteq> [] \<and> hd s = CHR ''$'')"

definition strip_private :: "string \<Rightarrow> string" where
  "strip_private s = (if has_private_mark s then tl s else s)"

definition parseTunnelID :: "uuid_parser \<Rightarrow> string \<Rightarrow> TunnelID" where
  "parseTunnelID uuid_Parse s =
     (if s = [] then zeroTunnelID
      else
        (let private = (hd s = CHR ''$'');
             s1 = (if private then tl s else s);
             (uuid, err) = uuid_Parse s1
         in if private then NewPrivateTunnelID uuid else NewTunnelID uuid))"

section \<open>Vocabulary of the selection properties\<close>

text \<open>
  A candidate of \<open>GetConnector\<close> for a network: a connector that is not closed and whose
  type matches the network (the test of lines 185 and 194-195).
\<close>

definition live_match :: "world \<Rightarrow> string \<Rightarrow> connector_ptr \<Rightarrow> bool" where
  "live_match w n c =
     (\<not> Connector_IsClosed w c \<and>
      (\<exists>a. c = Some a \<and> IsUDP (c_id (connector_of w a)) = (n = ''udp'')))"

definition is_max :: "world \<Rightarrow> connector_ptr \<Rightarrow> bool" where
  "is_max w c = (\<exists>a. c = Some a \<and> Weight (c_id (connector_of w a)) = MaxWeight)"

text \<open>The weight a connector is added with: its own weight, 0 counted as 1.\<close>

definition sel_weight :: "world \<Rightarrow> connector_ptr \<Rightarrow> int" where
  "sel_weight w c =
     (case c of
        None \<Rightarrow> 0
      | Some a \<Rightarrow>
          (let w0 = Weight (c_id (connector_of w a)) in uint (if w0 = 0 then 1 else w0)))"

definition with_weight :: "world \<Rightarrow> connector_ptr list \<Rightarrow> connector_ptr RandomWeighted" where
  "with_weight w cs = map (\<lambda>c. (c, sel_weight w c)) cs"

definition max_candidates :: "world \<Rightarrow> string \<Rightarrow> connector_ptr list \<Rightarrow> connector_ptr list" where
  "max_candidates w n cs = filter (\<lambda>c. live_match w n c \<and> is_max w c) cs"

section \<open>Sample objects\<close>

text \<open>
  A store with five connectors: 1, 2 and 3 are live TCP connectors of weights 1, 255
  and 1 (scenario S4 of the spec); 4 has no session; 5 is a UDP connector whose session,
  at address 15, is closed.
\<close>

definition sample_connector :: "8 word \<Rightarrow> bool \<Rightarrow> session_ptr \<Rightarrow> Connector" where
  "sample_connector wt udp sp =
     \<lparr>c_id = \<lparr>Weight = wt, IsUDP = udp\<rparr>,
      c_tid = NewTunnelID (replicate 16 17),
      c_node = ''node'',
      c_s = sp,
      c_opts = \<lparr>opt_service = ''svc'', opt_stats = None, opt_limiter = None\<rparr>\<rparr>"

definition sample_world :: world where
  "sample_world =
     \<lparr>connector_of =
        (\<lambda>a. if a = 1 then sample_connector 1 False (Some 11)
             else if a = 2 then sample_connector 255 False (Some 12)
             else if a = 3 then sample_connector 1 False (Some 13)
             else if a = 4 then sample_connector 0 True None
             else sample_connector 0 True (Some 15)),
      session_closed = (\<lambda>a. a = 15),
      session_getconn = (\<lambda>a. Inl (ErrExternal ''session closed'')),
      session_close_err = (\<lambda>a. None),
      close_calls = []\<rparr>"

definition sample_tunnel :: "connector_ptr list \<Rightarrow> Tunnel" where
  "sample_tunnel cs = (NewTunnel 15000000000 ''node'' (NewTunnelID (replicate 16 17)) 0)
     \<lparr>t_connectors := cs\<rparr>"

definition sample_pool :: ConnectorPool where
  "sample_pool =
     \<lparr>p_node = ''node'',
      p_tunnels = [''T1'' \<mapsto> sample_tunnel [Some 1, Some 2, Some 3]]\<rparr>"

text \<open>
  A relay environment with sample constants and command handlers that do nothing, a
  handler whose authenticator accepts every user but \<open>bad\<close>, and the requests of
  scenario S6: a BIND of user \<open>bad\<close> for tunnel \<open>T1\<close>, and the same without the
  tunnel feature.
\<close>

definition sample_env :: relay_env where
  "sample_env =
     \<lparr>Version1 = 1, CmdMask = 15, CmdConnect = 1, CmdBind = 2,
      handleConnect = (\<lambda>ctx req network src dst tid st. (None, st)),
      handleBind = (\<lambda>ctx network dst tid st. (None, st))\<rparr>"

definition sample_handler :: tunnelHandler where
  "sample_handler =
     \<lparr>h_Auther = Some (\<lambda>user pass. (user, user \<noteq> ''bad'')),
      h_RateLimiter = None,
      h_readTimeout = 0,
      h_Observer = Some 1,
      h_observePeriod = 0\<rparr>"

definition sample_T1 :: TunnelID where
  "sample_T1 = NewTunnelID (replicate 16 17)"

definition sample_bind :: "Feature list \<Rightarrow> conn_in" where
  "sample_bind fs =
     \<lparr>remote_host = ''192.0.2.1'',
      read_result = Inr \<lparr>req_Version = 1, req_Cmd = 2, req_Features = fs\<rparr>\<rparr>"

definition sample_state :: hstate where
  "sample_state = \<lparr>hs_pool = Some sample_pool, hs_world = sample_world, hs_conn = []\<rparr>"

text \<open>
  An instance of the parser parameter, for the 36-character form
  \<open>xxxxxxxx-xxxx-xxxx-xxxx-xxxxxxxxxxxx\<close>: it checks the length and the four dashes and
  then decodes the sixteen pairs of hexadecimal digits in order into one array, which
  it returns, filled as far as it got, together with the error when a pair is not
  hexadecimal.
\<close>

definition hexval :: "char \<Rightarrow> nat option" where
  "hexval c = map_of (zip ''0123456789abcdef'' [0 ..< 16]) c"

fun fill_uuid :: "string \<Rightarrow> nat list \<Rightarrow> nat \<Rightarrow> 8 word list \<Rightarrow> 8 word list \<times> error option" where
  "fill_uuid s [] i u = (u, None)"
| "fill_uuid s (x # xs) i u =
     (case (hexval (s ! x), hexval (s ! Suc x)) of
        (Some a, Some b) \<Rightarrow> fill_uuid s xs (Suc i) (u[i := of_nat (16 * a + b)])
      | _ \<Rightarrow> (u, Some (ErrExternal ''invalid UUID format'')))"

definition sample_uuid_Parse :: uuid_parser where
  "sample_uuid_Parse s =
     (if length s \<noteq> 36 then (zero_bytes, Some (ErrExternal ''invalid UUID length''))
      else if s ! 8 \<noteq> CHR ''-'' \<or> s ! 13 \<noteq> CHR ''-'' \<or> s ! 18 \<noteq> CHR ''-'' \<or> s ! 23 \<noteq> CHR ''-''
        then (zero_bytes, Some (ErrExternal ''invalid UUID format''))
      else fill_uuid s [0, 2, 4, 6, 9, 11, 14, 16, 19, 21, 24, 26, 28, 30, 32, 34] 0 zero_bytes)"

definition sample_full_listener :: listener_state where
  "sample_full_listener =
     (make_listener 2)\<lparr>cqueue := \<lparr>ch_buf = [7, 8], ch_cap = 2, ch_recvq = 0, ch_handed = []\<rparr>\<rparr>"

section \<open>Properties of Connector\<close>

text \<open>
  Claim C10. \<open>GetConn\<close> on a nil connector, or on a connector whose mux session is nil,
  returns a nil connection together with a nil error; in the same situation \<open>IsClosed\<close>
  returns true and \<open>Close\<close> returns nil (and touches nothing).
\<close>

theorem GetConn_nil_gives_nil_nil:
  "(c = None \<or> (\<exists>a. c = Some a \<and> c_s (connector_of w a) = None)) \<Longrightarrow>
     GetConn w c = (None, None) \<and>
     Connector_IsClosed w c = True \<and>
     Connector_Close w c = (None, w)"
  by (auto simp: GetConn_def Connector_IsClosed_def Connector_Close_def)

theorem GetConn_nil_gives_nil_nil_witness:
  "c_s (connector_of sample_world 4) = None \<and>
   GetConn sample_world (Some 4) = (None, None) \<and>
   Connector_IsClosed sample_world (Some 4) = True \<and>
   Connector_Close sample_world (Some 4) = (None, sample_world)"
  using GetConn_nil_gives_nil_nil [of "Some 4" sample_world]
  by (simp add: sample_world_def sample_connector_def)

section \<open>Properties of the selector and of the selection loop\<close>

lemma rw_pick_mem: "rw_pick rw k = Some x \<Longrightarrow> x \<in> fst ` set rw"
  by (induction rw k rule: rw_pick.induct) (auto split: if_splits)

lemma rw_Next_mem: "rw_Next rw r = Some x \<Longrightarrow> x \<in> fst ` set rw"
  by (auto simp: rw_Next_def Let_def dest: rw_pick_mem split: if_splits)

lemma rw_pick_total:
  "0 \<le> k \<Longrightarrow> k < sum_list (map snd rw) \<Longrightarrow> \<exists>x. rw_pick rw k = Some x"
  by (induction rw k rule: rw_pick.induct) auto

lemma rw_Next_total:
  "rw \<noteq> [] \<Longrightarrow> 0 < sum_list (map snd rw) \<Longrightarrow> \<exists>x. rw_Next rw r = Some x"
  by (simp add: rw_Next_def Let_def rw_pick_total)

lemma sum_const_weights: "sum_list (map snd (map (\<lambda>c. (c, k)) cs)) = k * int (length cs)"
  by (induction cs) (simp_all add: algebra_simps)

text \<open>
  One iteration of the loop, by the three kinds of connector it can meet.
\<close>

lemma loop_skip:
  "\<not> live_match w n c \<Longrightarrow>
     GetConnector_loop w n (c # cs) (rw, f) = GetConnector_loop w n cs (rw, f)"
  by (cases c) (auto simp: live_match_def Let_def)

lemma loop_max:
  "live_match w n c \<Longrightarrow> is_max w c \<Longrightarrow>
     GetConnector_loop w n (c # cs) (rw, f) =
       GetConnector_loop w n cs ((if f then rw else []) @ [(c, sel_weight w c)], True)"
  by (cases c)
     (auto simp: live_match_def is_max_def sel_weight_def Let_def Connector_ID_def
        MaxWeight_def rw_Add_def rw_Reset_def)

lemma loop_other:
  "live_match w n c \<Longrightarrow> \<not> is_max w c \<Longrightarrow>
     GetConnector_loop w n (c # cs) (rw, f) =
       GetConnector_loop w n cs (if f then rw else rw @ [(c, sel_weight w c)], f)"
  by (cases c)
     (auto simp: live_match_def is_max_def sel_weight_def Let_def Connector_ID_def
        MaxWeight_def rw_Add_def rw_Reset_def)

lemma loop_sound:
  "x \<in> fst ` set (fst (GetConnector_loop w n cs (rw, f))) \<Longrightarrow>
     x \<in> fst ` set rw \<or> (x \<in> set cs \<and> live_match w n x)"
proof (induction cs arbitrary: rw f)
  case Nil
  then show ?case by simp
next
  case (Cons c cs)
  consider (skip) "\<not> live_match w n c"
    | (max) "live_match w n c" "is_max w c"
    | (other) "live_match w n c" "\<not> is_max w c"
    by blast
  then show ?case
  proof cases
    case skip
    with Cons.prems have "x \<in> fst ` set (fst (GetConnector_loop w n cs (rw, f)))"
      by (simp add: loop_skip del: GetConnector_loop.simps)
    from Cons.IH [OF this] show ?thesis by auto
  next
    case max
    with Cons.prems have
      "x \<in> fst ` set (fst (GetConnector_loop w n cs
             ((if f then rw else []) @ [(c, sel_weight w c)], True)))"
      by (simp add: loop_max del: GetConnector_loop.simps)
    from Cons.IH [OF this] max show ?thesis by (auto split: if_splits)
  next
    case other
    with Cons.prems have
      "x \<in> fst ` set (fst (GetConnector_loop w n cs
             (if f then rw else rw @ [(c, sel_weight w c)], f)))"
      by (simp add: loop_other del: GetConnector_loop.simps)
    from Cons.IH [OF this] other show ?thesis by (auto split: if_splits)
  qed
qed

text \<open>
  The selection set after the loop, in closed form: once a maximum-weight candidate has
  been seen, the set holds the maximum-weight candidates and nothing else.
\<close>

lemma loop_selection:
  "fst (GetConnector_loop w n cs (rw, f)) =
     (if f then rw @ with_weight w (max_candidates w n cs)
      else if max_candidates w n cs \<noteq> [] then with_weight w (max_candidates w n cs)
      else rw @ with_weight w (filter (live_match w n) cs))"
proof (induction cs arbitrary: rw f)
  case Nil
  then show ?case by (simp add: with_weight_def max_candidates_def)
next
  case (Cons c cs)
  consider (skip) "\<not> live_match w n c"
    | (max) "live_match w n c" "is_max w c"
    | (other) "live_match w n c" "\<not> is_max w c"
    by blast
  then show ?case
  proof cases
    case skip
    then show ?thesis
      by (simp add: loop_skip Cons.IH with_weight_def max_candidates_def
            del: GetConnector_loop.simps)
  next
    case max
    then show ?thesis
      by (simp add: loop_max Cons.IH with_weight_def max_candidates_def
            del: GetConnector_loop.simps)
  next
    case other
    then show ?thesis
      by (simp add: loop_other Cons.IH with_weight_def max_candidates_def
            del: GetConnector_loop.simps)
  qed
qed

section \<open>Properties of Tunnel.GetConnector\<close>

text \<open>
  Claim C1. For every tunnel and network string \<open>n\<close>, \<open>GetConnector\<close> returns nil or a
  connector of the tunnel that is not closed and whose \<open>IsUDP()\<close> equals \<open>n = "udp"\<close>,
  except when the connector list has exactly one element: that element is returned
  without any filtering, whatever its state and type.
\<close>

theorem GetConnector_live_matching:
  "(length (t_connectors t) = 1 \<longrightarrow> GetConnector w t n r = t_connectors t ! 0) \<and>
   (length (t_connectors t) \<noteq> 1 \<longrightarrow>
      GetConnector w t n r = None \<or>
      (\<exists>a. GetConnector w t n r = Some a \<and> Some a \<in> set (t_connectors t) \<and>
           Connector_IsClosed w (Some a) = False \<and>
           IsUDP (Connector_ID w a) = (n = ''udp'')))"
proof (intro conjI impI)
  assume "length (t_connectors t) = 1"
  then show "GetConnector w t n r = t_connectors t ! 0"
    by (simp add: GetConnector_def)
next
  assume many: "length (t_connectors t) \<noteq> 1"
  let ?rw = "fst (GetConnector_loop w n (t_connectors t) (NewRandomWeighted, False))"
  show "GetConnector w t n r = None \<or>
      (\<exists>a. GetConnector w t n r = Some a \<and> Some a \<in> set (t_connectors t) \<and>
           Connector_IsClosed w (Some a) = False \<and>
           IsUDP (Connector_ID w a) = (n = ''udp''))"
  proof (cases "GetConnector w t n r")
    case None
    then show ?thesis by simp
  next
    case (Some a)
    with many have "rw_Next ?rw r = Some (Some a)"
      by (simp add: GetConnector_def split: option.splits)
    then have "Some a \<in> fst ` set ?rw" by (rule rw_Next_mem)
    then have "Some a \<in> set (t_connectors t) \<and> live_match w n (Some a)"
      using loop_sound [of "Some a" w n "t_connectors t" NewRandomWeighted False]
      by (simp add: NewRandomWeighted_def)
    with Some show ?thesis
      by (simp add: live_match_def Connector_ID_def)
  qed
qed

text \<open>
  At the sample store: among a live TCP connector, a closed UDP one and another live TCP
  one, a TCP query returns a live TCP connector; a tunnel holding only the closed UDP
  connector returns it to the same query.
\<close>

theorem GetConnector_live_matching_witness:
  "length (t_connectors (sample_tunnel [Some 1, Some 5, Some 3])) \<noteq> 1 \<and>
   GetConnector sample_world (sample_tunnel [Some 1, Some 5, Some 3]) ''tcp'' 1 = Some 3 \<and>
   Connector_IsClosed sample_world (Some 3) = False \<and>
   IsUDP (Connector_ID sample_world 3) = (''tcp'' = ''udp'') \<and>
   GetConnector sample_world (sample_tunnel [Some 5]) ''tcp'' 1 = Some 5 \<and>
   Connector_IsClosed sample_world (Some 5) = True"
  using GetConnector_live_matching [of "sample_tunnel [Some 1, Some 5, Some 3]" sample_world "''tcp''" 1]
    GetConnector_live_matching [of "sample_tunnel [Some 5]" sample_world "''tcp''" 1]
  by (simp add: sample_tunnel_def sample_world_def sample_connector_def NewTunnel_def
        GetConnector_def Connector_IsClosed_def Session_IsClosed_def Connector_ID_def
        NewRandomWeighted_def rw_Add_def rw_Reset_def rw_Next_def MaxWeight_def Let_def)

text \<open>
  Claim C2. With more than one connector in the list, if some live, network-matching
  candidate has weight 255, the selection set handed to the selector consists of exactly
  the live, matching candidates of weight 255 (each with weight 255), and the connector
  returned is one of them: a candidate of lower weight is never chosen. Moreover the
  result is not nil, for every draw \<open>r\<close>.
\<close>

theorem GetConnector_max_weight_override:
  assumes many: "1 < length (t_connectors t)"
    and present: "Some m \<in> set (t_connectors t)" "Connector_IsClosed w (Some m) = False"
      "IsUDP (Connector_ID w m) = (n = ''udp'')" "Weight (Connector_ID w m) = MaxWeight"
  shows "fst (GetConnector_loop w n (t_connectors t) (NewRandomWeighted, False)) =
           map (\<lambda>c. (c, 255))
             (filter (\<lambda>c. Connector_IsClosed w c = False \<and>
                          (\<exists>b. c = Some b \<and> IsUDP (Connector_ID w b) = (n = ''udp'') \<and>
                               Weight (Connector_ID w b) = MaxWeight))
                (t_connectors t)) \<and>
         (\<exists>a. GetConnector w t n r = Some a \<and> Some a \<in> set (t_connectors t) \<and>
              Weight (Connector_ID w a) = MaxWeight)"
proof -
  let ?cs = "t_connectors t"
  let ?rw = "fst (GetConnector_loop w n ?cs (NewRandomWeighted, False))"
  let ?P = "\<lambda>c. Connector_IsClosed w c = False \<and>
                (\<exists>b. c = Some b \<and> IsUDP (Connector_ID w b) = (n = ''udp'') \<and>
                     Weight (Connector_ID w b) = MaxWeight)"
  have m: "live_match w n (Some m) \<and> is_max w (Some m)"
    using present by (simp add: live_match_def is_max_def Connector_ID_def)
  with present(1) have ne: "max_candidates w n ?cs \<noteq> []"
    by (auto simp: max_candidates_def filter_empty_conv)
  then have sel: "?rw = with_weight w (max_candidates w n ?cs)"
    by (simp add: loop_selection NewRandomWeighted_def)
  have wt: "sel_weight w c = 255" if "is_max w c" for c
    using that by (auto simp: is_max_def sel_weight_def MaxWeight_def Let_def)
  have flt: "max_candidates w n ?cs = filter ?P ?cs"
    unfolding max_candidates_def
    by (rule filter_cong) (auto simp: live_match_def is_max_def Connector_ID_def)
  have "with_weight w (max_candidates w n ?cs) = map (\<lambda>c. (c, 255)) (max_candidates w n ?cs)"
    unfolding with_weight_def by (rule map_cong) (auto simp: max_candidates_def wt)
  with sel flt have first: "?rw = map (\<lambda>c. (c, 255)) (filter ?P ?cs)"
    by simp
  from ne flt have "filter ?P ?cs \<noteq> []" by simp
  then have "?rw \<noteq> []" "0 < sum_list (map snd ?rw)"
    unfolding first by (simp_all add: sum_const_weights del: map_map)
  then obtain x where x: "rw_Next ?rw r = Some x"
    using rw_Next_total by blast
  then have "x \<in> fst ` set ?rw" by (rule rw_Next_mem)
  with sel have mem: "x \<in> set ?cs" "is_max w x"
    by (auto simp: with_weight_def max_candidates_def)
  then obtain a where a: "x = Some a" "Weight (Connector_ID w a) = MaxWeight"
    by (auto simp: is_max_def Connector_ID_def)
  from many x a(1) have "GetConnector w t n r = Some a"
    by (simp add: GetConnector_def)
  with mem(1) a first show ?thesis by blast
qed

text \<open>
  Scenario S4: weights 1, 255, 1 always select the connector of weight 255.
\<close>

theorem GetConnector_max_weight_override_witness:
  "1 < length (t_connectors (sample_tunnel [Some 1, Some 2, Some 3])) \<and>
   Some 2 \<in> set (t_connectors (sample_tunnel [Some 1, Some 2, Some 3])) \<and>
   Connector_IsClosed sample_world (Some 2) = False \<and>
   IsUDP (Connector_ID sample_world 2) = (''tcp'' = ''udp'') \<and>
   Weight (Connector_ID sample_world 2) = MaxWeight \<and>
   GetConnector sample_world (sample_tunnel [Some 1, Some 2, Some 3]) ''tcp'' 0 = Some 2 \<and>
   fst (GetConnector_loop sample_world ''tcp''
          (t_connectors (sample_tunnel [Some 1, Some 2, Some 3])) (NewRandomWeighted, False)) =
     [(Some 2, 255)]"
  using GetConnector_max_weight_override
    [of "sample_tunnel [Some 1, Some 2, Some 3]" 2 sample_world "''tcp''" 0]
  by (simp add: sample_tunnel_def sample_world_def sample_connector_def NewTunnel_def
        GetConnector_def Connector_IsClosed_def Session_IsClosed_def Connector_ID_def
        NewRandomWeighted_def rw_Add_def rw_Reset_def rw_Next_def MaxWeight_def Let_def)

section \<open>Properties of Tunnel.AddConnector and Tunnel.Close\<close>










section \<open>Properties of ConnectorPool.Get\<close>

text \<open>
  Claim C6. \<open>Get\<close> for a tunnel identifier without an entry in the pool's map (or on a
  nil pool) returns nil and leaves the pool as it was: no entry is created, changed or
  removed.
\<close>

theorem ConnectorPool_Get_missing_key:
  "p = None \<or> (\<exists>pool. p = Some pool \<and> p_tunnels pool tid = None) \<Longrightarrow>
     ConnectorPool_Get w p network tid r = (None, p)"
  by (auto simp: ConnectorPool_Get_def)

theorem ConnectorPool_Get_missing_key_witness:
  "p_tunnels sample_pool ''T2'' = None \<and>
   ConnectorPool_Get sample_world (Some sample_pool) ''tcp'' ''T2'' 0 = (None, Some sample_pool) \<and>
   fst (ConnectorPool_Get sample_world (Some sample_pool) ''tcp'' ''T1'' 0) = Some 2"
  using ConnectorPool_Get_missing_key [of "Some sample_pool" "''T2''" sample_world "''tcp''" 0]
  by (simp add: sample_pool_def ConnectorPool_Get_def
        sample_tunnel_def sample_world_def sample_connector_def NewTunnel_def
        GetConnector_def Connector_IsClosed_def Session_IsClosed_def Connector_ID_def
        NewRandomWeighted_def rw_Add_def rw_Reset_def rw_Next_def MaxWeight_def Let_def)

section \<open>Properties of the relay handler's Handle\<close>

lemma read_features_no_tunnel:
  "\<forall>tid. TunnelFeature tid \<notin> set fs \<Longrightarrow> f_tunnelID (read_features fs v) = f_tunnelID v"
  by (induction fs v rule: read_features.induct) simp_all

text \<open>
  Claim C3. \<open>Handle\<close> consults the authenticator when the rate limiter admits the
  peer, the request has been read, its version is \<open>Version1\<close> and its tunnel identifier
  is not zero. When an authenticator is configured and rejects the user and password
  of the request there, \<open>Handle\<close> writes one response, of status \<open>Unauthorized\<close>, returns
  \<open>ErrUnauthorized\<close> (so the connection is closed), calls no command handler, and leaves
  the connector pool and the store of connectors and sessions unchanged.
\<close>

theorem Handle_auth_reject:
  assumes "checkRateLimit h (remote_host conn)"
    and "read_result conn = Inr req"
    and "req_Version req = Version1 E"
    and "\<not> IsZero (f_tunnelID (parsed req))"
    and "h_Auther h = Some auth"
    and "snd (auth (f_user (parsed req)) (f_pass (parsed req))) = False"
  shows "Handle E h conn st =
           (Some ErrUnauthorized,
            st\<lparr>hs_conn := hs_conn st @
                 (if h_readTimeout h > 0 then [SetReadDeadline True] else []) @
                 [ReadRequest, SetReadDeadline False,
                  WriteResponse \<lparr>resp_Version = Version1 E, resp_Status = StatusUnauthorized\<rparr>,
                  ConnClose]\<rparr>,
            NoDispatch) \<and>
         hs_pool (fst (snd (Handle E h conn st))) = hs_pool st \<and>
         hs_world (fst (snd (Handle E h conn st))) = hs_world st"
proof -
  obtain cid where rejected: "auth (f_user (parsed req)) (f_pass (parsed req)) = (cid, False)"
    using assms(6) by (cases "auth (f_user (parsed req)) (f_pass (parsed req))") simp
  have "Handle_body E h conn st =
          (Some ErrUnauthorized,
           st\<lparr>hs_conn := hs_conn st @
                (if h_readTimeout h > 0 then [SetReadDeadline True] else []) @
                [ReadRequest, SetReadDeadline False,
                 WriteResponse \<lparr>resp_Version = Version1 E, resp_Status = StatusUnauthorized\<rparr>]\<rparr>,
           NoDispatch)"
    using assms(1-5) rejected
    by (simp add: Handle_body_def on_conn_def Let_def)
  then show ?thesis
    by (simp add: Handle_def on_conn_def)
qed

text \<open>
  Scenario S6: the authenticator rejects user \<open>bad\<close>; a BIND with
  \<open>UserAuth{bad, x}\<close> and \<open>Tunnel{T1}\<close> is answered \<open>Unauthorized\<close>.
\<close>

theorem Handle_auth_reject_witness:
  "checkRateLimit sample_handler
      (remote_host (sample_bind [UserAuthFeature ''bad'' ''x'', TunnelFeature sample_T1])) \<and>
   \<not> IsZero sample_T1 \<and>
   Handle sample_env sample_handler
      (sample_bind [UserAuthFeature ''bad'' ''x'', TunnelFeature sample_T1]) sample_state =
     (Some ErrUnauthorized,
      sample_state\<lparr>hs_conn :=
        [ReadRequest, SetReadDeadline False,
         WriteResponse \<lparr>resp_Version = 1, resp_Status = StatusUnauthorized\<rparr>, ConnClose]\<rparr>,
      NoDispatch)"
  using Handle_auth_reject
    [where h = sample_handler
       and conn = "sample_bind [UserAuthFeature ''bad'' ''x'', TunnelFeature sample_T1]"
       and req = "\<lparr>req_Version = 1, req_Cmd = 2,
                   req_Features = [UserAuthFeature ''bad'' ''x'', TunnelFeature sample_T1]\<rparr>"
       and E = sample_env
       and auth = "\<lambda>user pass. (user, user \<noteq> ''bad'')"
       and st = sample_state]
  by (simp add: sample_handler_def sample_bind_def sample_env_def sample_state_def sample_T1_def
        checkRateLimit_def IsZero_def NewTunnelID_def copy16_def zero_bytes_def no_features_def
        parsed_def)

text \<open>
  Claim C4. For a request that \<open>Handle\<close> has read from an admitted peer and whose
  version it has accepted: when the request carries no tunnel feature, or the tunnel
  identifier it carries is zero, \<open>Handle\<close> writes one response, of status \<open>BadRequest\<close>,
  and returns \<open>ErrTunnelID\<close>; no command handler (CONNECT or BIND) is called, and the
  pool and the store are unchanged.
\<close>

theorem Handle_zero_tunnel_id:
  assumes "checkRateLimit h (remote_host conn)"
    and "read_result conn = Inr req"
    and "req_Version req = Version1 E"
    and "(\<forall>tid. TunnelFeature tid \<notin> set (req_Features req)) \<or>
         IsZero (f_tunnelID (parsed req))"
  shows "Handle E h conn st =
           (Some ErrTunnelID,
            st\<lparr>hs_conn := hs_conn st @
                 (if h_readTimeout h > 0 then [SetReadDeadline True] else []) @
                 [ReadRequest, SetReadDeadline False,
                  WriteResponse \<lparr>resp_Version = Version1 E, resp_Status = StatusBadRequest\<rparr>,
                  ConnClose]\<rparr>,
            NoDispatch)"
proof -
  have "IsZero (f_tunnelID (parsed req))"
    using assms(4)
    by (auto simp: parsed_def read_features_no_tunnel no_features_def IsZero_def
          zeroTunnelID_def)
  with assms(1-3) show ?thesis
    by (simp add: Handle_def Handle_body_def on_conn_def Let_def)
qed

text \<open>
  A BIND without a tunnel feature, and a BIND whose tunnel feature holds sixteen zero
  bytes, are both answered \<open>BadRequest\<close>.
\<close>

theorem Handle_zero_tunnel_id_witness:
  "Handle sample_env sample_handler (sample_bind [UserAuthFeature ''bad'' ''x'']) sample_state =
     (Some ErrTunnelID,
      sample_state\<lparr>hs_conn :=
        [ReadRequest, SetReadDeadline False,
         WriteResponse \<lparr>resp_Version = 1, resp_Status = StatusBadRequest\<rparr>, ConnClose]\<rparr>,
      NoDispatch) \<and>
   Handle sample_env sample_handler
      (sample_bind [TunnelFeature (NewPrivateTunnelID zero_bytes)]) sample_state =
     (Some ErrTunnelID,
      sample_state\<lparr>hs_conn :=
        [ReadRequest, SetReadDeadline False,
         WriteResponse \<lparr>resp_Version = 1, resp_Status = StatusBadRequest\<rparr>, ConnClose]\<rparr>,
      NoDispatch)"
  using Handle_zero_tunnel_id
    [where h = sample_handler
       and conn = "sample_bind [UserAuthFeature ''bad'' ''x'']"
       and req = "\<lparr>req_Version = 1, req_Cmd = 2, req_Features = [UserAuthFeature ''bad'' ''x'']\<rparr>"
       and E = sample_env and st = sample_state]
    Handle_zero_tunnel_id
    [where h = sample_handler
       and conn = "sample_bind [TunnelFeature (NewPrivateTunnelID zero_bytes)]"
       and req = "\<lparr>req_Version = 1, req_Cmd = 2,
                   req_Features = [TunnelFeature (NewPrivateTunnelID zero_bytes)]\<rparr>"
       and E = sample_env and st = sample_state]
  by (simp add: sample_handler_def sample_bind_def sample_env_def sample_state_def
        checkRateLimit_def IsZero_def NewPrivateTunnelID_def copy16_def zero_bytes_def
        no_features_def parsed_def)

section \<open>Properties of the stats observer\<close>

text \<open>
  Claim C7. When an observer is configured, the ticker of \<open>observeStats\<close> runs with
  period \<open>observePeriod\<close> whenever \<open>observePeriod\<close> is at least one millisecond, and with
  period five seconds whenever it is below one millisecond (zero and negative values
  included); the same holds for the SOCKS4 handler's copy of the function.
\<close>

theorem observeStats_period:
  "(h_Observer h \<noteq> None \<longrightarrow>
      (\<exists>run. observeStats h es = Some run \<and>
         (Millisecond \<le> h_observePeriod h \<longrightarrow> ticker_period run = h_observePeriod h) \<and>
         (h_observePeriod h < Millisecond \<longrightarrow> ticker_period run = 5 * Second))) \<and>
   (s4_Observer h4 \<noteq> None \<longrightarrow>
      (\<exists>run. socks4_observeStats h4 es = Some run \<and>
         (Millisecond \<le> s4_observePeriod h4 \<longrightarrow> ticker_period run = s4_observePeriod h4) \<and>
         (s4_observePeriod h4 < Millisecond \<longrightarrow> ticker_period run = 5 * Second))) \<and>
   Millisecond = 1000000 \<and> 5 * Second = 5000000000"
  by (simp add: observeStats_def socks4_observeStats_def Let_def Millisecond_def Second_def)

text \<open>
  The sample handler's period 0 gives five seconds; the SOCKS4 period of 250 ms is kept.
\<close>

theorem observeStats_period_witness:
  "h_Observer sample_handler \<noteq> None \<and>
   h_observePeriod sample_handler < Millisecond \<and>
   map_option ticker_period (observeStats sample_handler [TickerC, CtxDone]) = Some 5000000000 \<and>
   s4_Observer \<lparr>s4_Observer = Some 1, s4_observePeriod = 250000000\<rparr> \<noteq> None \<and>
   Millisecond \<le> s4_observePeriod \<lparr>s4_Observer = Some 1, s4_observePeriod = 250000000\<rparr> \<and>
   map_option ticker_period
     (socks4_observeStats \<lparr>s4_Observer = Some 1, s4_observePeriod = 250000000\<rparr> [TickerC, CtxDone]) =
     Some 250000000"
proof -
  have a: "h_Observer sample_handler \<noteq> None"
    by (simp add: sample_handler_def)
  have b: "h_observePeriod sample_handler < Millisecond"
    by (simp add: sample_handler_def Millisecond_def)
  have c: "s4_Observer \<lparr>s4_Observer = Some 1, s4_observePeriod = 250000000\<rparr> \<noteq> None"
    by simp
  have d: "Millisecond \<le> s4_observePeriod \<lparr>s4_Observer = Some 1, s4_observePeriod = 250000000\<rparr>"
    by (simp add: Millisecond_def)
  have e: "5 * Second = 5000000000"
    by (simp add: Second_def Millisecond_def)
  from observeStats_period [of sample_handler "[TickerC, CtxDone]"
      "\<lparr>s4_Observer = Some 1, s4_observePeriod = 250000000\<rparr>"] a b c d e
  show ?thesis
    by (simp only: simp_thms) auto
qed

section \<open>Properties of the listener queue\<close>

lemma push_full:
  "chan_ok (cqueue st) \<Longrightarrow> 0 < ch_cap (cqueue st) \<Longrightarrow>
   length (ch_buf (cqueue st)) = ch_cap (cqueue st) \<Longrightarrow>
     push st c = st\<lparr>closed_conns := closed_conns st @ [c], warnings := Suc (warnings st)\<rparr>"
  by (auto simp: push_def send_or_default_def chan_ok_def)

lemma mux_loop_full:
  "chan_ok (cqueue st) \<Longrightarrow> 0 < ch_cap (cqueue st) \<Longrightarrow>
   length (ch_buf (cqueue st)) = ch_cap (cqueue st) \<Longrightarrow>
     cqueue (fst (mux_loop results st)) = cqueue st"
proof (induction results st rule: mux_loop.induct)
  case (3 c rest st)
  from "3.prems" have p: "push st c =
      st\<lparr>closed_conns := closed_conns st @ [c], warnings := Suc (warnings st)\<rparr>"
    by (rule push_full)
  with "3.prems" "3.IH" show ?case by simp
qed simp_all

text \<open>
  Claim C8. When the listener's queue, of positive capacity \<open>backlog\<close>, is full, the
  push of a newly accepted connection takes the \<open>default\<close> case of the \<open>select\<close>: the
  connection is closed (and a warning logged) instead of being enqueued, the queue is
  unchanged, and the loop of \<open>mux\<close> goes on with its next \<open>Accept\<close>; \<open>handleFunc\<close> of the
  h2 listener drops the connection in the same way.
\<close>

theorem full_queue_push_drops:
  assumes "chan_ok (cqueue st)"
    and "0 < ch_cap (cqueue st)"
    and "length (ch_buf (cqueue st)) = ch_cap (cqueue st)"
  shows "send_or_default (cqueue st) c = None \<and>
         mux_loop (Accepted c # rest) st =
           mux_loop rest (st\<lparr>closed_conns := closed_conns st @ [c],
                              warnings := Suc (warnings st)\<rparr>) \<and>
         cqueue (fst (mux_loop (Accepted c # rest) st)) = cqueue st \<and>
         handleFunc (Inr c) st =
           (st\<lparr>closed_conns := closed_conns st @ [c], warnings := Suc (warnings st)\<rparr>,
            AwaitStreamEnd c)"
proof -
  have "send_or_default (cqueue st) c = None"
    using assms by (auto simp: send_or_default_def chan_ok_def)
  moreover have "cqueue (fst (mux_loop (Accepted c # rest) st)) = cqueue st"
    using assms by (rule mux_loop_full)
  ultimately show ?thesis
    using assms by (simp add: push_full handleFunc_def)
qed

text \<open>
  A queue of capacity 2 holding connections 7 and 8: connections 9 and 10 are closed,
  the queue still holds 7 and 8, and the loop is waiting in \<open>Accept\<close>.
\<close>

theorem full_queue_push_drops_witness:
  "chan_ok (cqueue sample_full_listener) \<and>
   length (ch_buf (cqueue sample_full_listener)) = ch_cap (cqueue sample_full_listener) \<and>
   mux_loop [Accepted 9, Accepted 10] sample_full_listener =
     (sample_full_listener\<lparr>closed_conns := [9, 10], warnings := 2\<rparr>, InAccept) \<and>
   handleFunc (Inr 9) sample_full_listener =
     (sample_full_listener\<lparr>closed_conns := [9], warnings := 1\<rparr>, AwaitStreamEnd 9)"
  using full_queue_push_drops [of sample_full_listener 9 "[Accepted 10]"]
  by (simp add: sample_full_listener_def make_listener_def chan_ok_def push_def
        send_or_default_def handleFunc_def)

section \<open>Properties of parseTunnelID\<close>

text \<open>
  Claim C9, as stated, asks that every text that is not a valid UUID gives the tunnel
  identifier built from the all-zero UUID. \<open>parseTunnelID\<close> builds the identifier from the
  array \<open>uuid.Parse\<close> returned, whatever the error: with a parser that returns the array
  as far as it decoded it, a text whose last pair of digits is not hexadecimal gives an
  identifier whose first fifteen bytes are \<open>0xff\<close>.
\<close>

theorem parseTunnelID_keeps_partial_uuid:
  "snd (sample_uuid_Parse ''ffffffff-ffff-ffff-ffff-ffffffffffzz'') \<noteq> None \<and>
   parseTunnelID sample_uuid_Parse ''ffffffff-ffff-ffff-ffff-ffffffffffzz'' =
     NewTunnelID (replicate 15 255 @ [0]) \<and>
   parseTunnelID sample_uuid_Parse ''ffffffff-ffff-ffff-ffff-ffffffffffzz'' \<noteq>
     NewTunnelID zero_bytes"
  by code_simp

text \<open>
  Claim C9, amended. \<open>parseTunnelID\<close> discards the error of \<open>uuid.Parse\<close>: for every
  parser and every text, the result is private exactly when the text starts with
  \<open>$\<close>, and its bytes are the array the parser returned for the text without that
  prefix, with or without an error. When that array is the all-zero UUID, and for the
  empty text, the result is the identifier built from the all-zero UUID: the zero
  (unset) identifier when there is no \<open>$\<close>.
\<close>

theorem parseTunnelID_discards_error:
  "tid_private (parseTunnelID uuid_Parse s) = has_private_mark s \<and>
   (s \<noteq> [] \<longrightarrow>
      tid_bytes (parseTunnelID uuid_Parse s) = copy16 (fst (uuid_Parse (strip_private s)))) \<and>
   (s = [] \<or> fst (uuid_Parse (strip_private s)) = zero_bytes \<longrightarrow>
      parseTunnelID uuid_Parse s =
        (if has_private_mark s then NewPrivateTunnelID zero_bytes
         else NewTunnelID zero_bytes))"
  by (auto simp: parseTunnelID_def has_private_mark_def strip_private_def Let_def
        NewTunnelID_def NewPrivateTunnelID_def zeroTunnelID_def copy16_def zero_bytes_def
        split: prod.splits)

text \<open>
  A text of the wrong length, for which the sample parser returns the zero array with
  its error, with and without the prefix, and the empty text.
\<close>

theorem parseTunnelID_discards_error_witness:
  "snd (sample_uuid_Parse ''not-a-uuid'') \<noteq> None \<and>
   parseTunnelID sample_uuid_Parse ''$not-a-uuid'' = NewPrivateTunnelID zero_bytes \<and>
   parseTunnelID sample_uuid_Parse ''not-a-uuid'' = NewTunnelID zero_bytes \<and>
   parseTunnelID sample_uuid_Parse [] = NewTunnelID zero_bytes"
  using parseTunnelID_discards_error [of sample_uuid_Parse "''$not-a-uuid''"]
    parseTunnelID_discards_error [of sample_uuid_Parse "''not-a-uuid''"]
    parseTunnelID_discards_error [of sample_uuid_Parse "[]"]
  by (simp add: sample_uuid_Parse_def has_private_mark_def strip_private_def)

end
